theory Spec2Isabelle
  imports Complex_Main
begin

section \<open>Data model\<close>

text \<open>
  The interface \<^verbatim>\<open>AudioSpriteNoteData\<close> of the type declarations. MIDI note numbers are
  integers; offsets and durations are numbers of seconds, taken here as reals (rounding,
  NaN and the infinities of the floating-point type are left out). The two loop points are
  optional: \<open>None\<close> is an absent (undefined) property.
\<close>

record AudioSpriteNoteData =
  midiNoteNumber :: int
  midiNoteRangeStart :: int
  midiNoteRangeEnd :: int
  noteStart :: real
  noteDuration :: real
  loopStart :: "real option"
  loopEnd :: "real option"

text \<open>
  \<^verbatim>\<open>AudioSpriteInstrumentsData\<close>: the catalog, a plain object (an object literal, as in
  the example data, or parsed JSON) whose own properties are the instruments, each with
  its descriptor array. The map holds these own properties; what a read of the object
  yields for the other names is \<open>readCatalog\<close> below.
\<close>

type_synonym AudioSpriteInstrumentsData = "string \<rightharpoonup> AudioSpriteNoteData list"

text \<open>Everything the module throws, and everything it prints on the console.\<close>

datatype error =
    AudioContextNotInitialized
      \<comment> \<open>\<^verbatim>\<open>Error("The Audio Context was not initialized properly.")\<close>\<close>
  | NoSuchInstrument string
      \<comment> \<open>\<^verbatim>\<open>TypeError("Invalid attribute value: instrument-audio = ...")\<close>\<close>
  | InstrumentDataEmpty string
      \<comment> \<open>\<^verbatim>\<open>Error("Instrument data array is empty for ...")\<close>\<close>
  | UuidRequired
      \<comment> \<open>\<^verbatim>\<open>Error("a valid uuid must be supplied, if using undefined/infinite noteDuration")\<close>\<close>
  | PropertyOfUndefined
      \<comment> \<open>the TypeError of the runtime for reading a property of \<^verbatim>\<open>undefined\<close>\<close>

datatype console_msg =
    ConsoleError error
  | WarnNotInRange int
      \<comment> \<open>\<^verbatim>\<open>MIDI note ... not found within any defined range. Falling back to simple closest.\<close>\<close>
  | WarnNonExistentNote string
      \<comment> \<open>\<^verbatim>\<open>Attempted to stop non-existent note with UUID: ...\<close>\<close>

section \<open>Range resolution: \<^verbatim>\<open>getClosestSpriteNoteData\<close>\<close>

text \<open>
  The \<^verbatim>\<open>while (low <= high)\<close> loop. \<open>low\<close> and \<open>high\<close> are integers (\<open>high\<close> becomes
  \<open>-1\<close> when the search leaves the array on the left). Reading the array out of range
  gives \<^verbatim>\<open>undefined\<close>, and the property access that follows throws. The loop leaves
  \<^verbatim>\<open>result\<close> undefined (\<open>None\<close>) when it ends without a match.
\<close>

function binarySearch ::
  "AudioSpriteNoteData list \<Rightarrow> int \<Rightarrow> int \<Rightarrow> int \<Rightarrow> error + AudioSpriteNoteData option" where
  "binarySearch instrumentData n low high =
     (if low \<le> high then
        (let mid = (low + high) div 2 in
         if mid < 0 \<or> int (length instrumentData) \<le> mid then Inl PropertyOfUndefined
         else
           (let currentNoteData = instrumentData ! nat mid in
            if n \<ge> midiNoteRangeStart currentNoteData \<and> n \<le> midiNoteRangeEnd currentNoteData
            then Inr (Some currentNoteData)
            else if n < midiNoteRangeStart currentNoteData
            then binarySearch instrumentData n low (mid - 1)
            else binarySearch instrumentData n (mid + 1) high))
      else Inr None)"
  by pat_completeness auto
termination
  by (relation "measure (\<lambda>(instrumentData, n, low, high). nat (high - low + 1))") auto

declare binarySearch.simps [simp del]

text \<open>The fallback \<^verbatim>\<open>for (let i = 1; i < instrumentData.length; i++)\<close> loop.\<close>

function closestLoop ::
  "AudioSpriteNoteData list \<Rightarrow> int \<Rightarrow> nat \<Rightarrow> AudioSpriteNoteData \<Rightarrow> int \<Rightarrow> AudioSpriteNoteData" where
  "closestLoop instrumentData n i closest minDiff =
     (if i < length instrumentData then
        (let currentDiff = \<bar>n - midiNoteNumber (instrumentData ! i)\<bar> in
         if currentDiff < minDiff
         then closestLoop instrumentData n (i + 1) (instrumentData ! i) currentDiff
         else closestLoop instrumentData n (i + 1) closest minDiff)
      else closest)"
  by pat_completeness auto
termination
  by (relation "measure (\<lambda>(instrumentData, n, i, closest, minDiff). length instrumentData - i)") auto

declare closestLoop.simps [simp del]

text \<open>
  The members that every plain object inherits from \<^verbatim>\<open>Object.prototype\<close>: the methods,
  each with the value of its \<^verbatim>\<open>length\<close> property, and the accessor \<^verbatim>\<open>__proto__\<close>, which
  reads as the prototype object itself.
\<close>

definition Object_prototype_methods :: "(string \<times> nat) list" where
  "Object_prototype_methods =
     [(''constructor'', 1), (''hasOwnProperty'', 1), (''isPrototypeOf'', 1),
      (''propertyIsEnumerable'', 1), (''toLocaleString'', 0), (''toString'', 0),
      (''valueOf'', 0), (''__defineGetter__'', 2), (''__defineSetter__'', 2),
      (''__lookupGetter__'', 1), (''__lookupSetter__'', 1)]"

definition Object_prototype_properties :: "string list" where
  "Object_prototype_properties = map fst Object_prototype_methods @ [''__proto__'']"

text \<open>
  The read \<^verbatim>\<open>audioSpriteInstrumentsData?.[instrumentAudio]\<close>. It yields \<^verbatim>\<open>undefined\<close>
  while the global is \<^verbatim>\<open>null\<close>; otherwise it follows the prototype chain of the catalog:
  an own property gives its descriptor array, the name of an inherited method gives that
  function, \<^verbatim>\<open>__proto__\<close> gives \<^verbatim>\<open>Object.prototype\<close>, and every other name gives
  \<^verbatim>\<open>undefined\<close>.
\<close>

datatype catalog_value =
    NoValue  \<comment> \<open>\<^verbatim>\<open>undefined\<close>\<close>
  | Descriptors "AudioSpriteNoteData list"
  | Method nat  \<comment> \<open>an inherited function, with its \<^verbatim>\<open>length\<close>\<close>
  | PrototypeObject  \<comment> \<open>\<^verbatim>\<open>Object.prototype\<close>, which has no \<^verbatim>\<open>length\<close>\<close>

definition readCatalog :: "AudioSpriteInstrumentsData option \<Rightarrow> string \<Rightarrow> catalog_value" where
  "readCatalog instrumentsData key =
     (case instrumentsData of
        None \<Rightarrow> NoValue
      | Some data \<Rightarrow>
          (case data key of
             Some instrumentData \<Rightarrow> Descriptors instrumentData
           | None \<Rightarrow>
               if key = ''__proto__'' then PrototypeObject
               else (case map_of Object_prototype_methods key of
                       Some len \<Rightarrow> Method len
                     | None \<Rightarrow> NoValue)))"

text \<open>
  The function reads the global \<^verbatim>\<open>audioSpriteInstrumentsData\<close> (\<open>None\<close> while it is
  \<^verbatim>\<open>null\<close>), its first argument here, and may write one warning to the console: the
  result carries the descriptor and the console lines written. A throw is \<open>Inl\<close>.
  The parameter \<^verbatim>\<open>midiNoteNumber\<close> is written \<open>n\<close> here and below, the name being
  taken by the field of the descriptor.

  Only \<^verbatim>\<open>undefined\<close> is stopped by the first guard. An inherited method of length 0 is
  stopped by the second. One of greater length enters the loop with \<open>0 \<le> high\<close>; it has
  no indexed elements, so \<^verbatim>\<open>instrumentData[mid]\<close> is \<^verbatim>\<open>undefined\<close> and reading
  \<^verbatim>\<open>midiNoteRangeStart\<close> of it throws. For \<^verbatim>\<open>Object.prototype\<close> the length is
  \<^verbatim>\<open>undefined\<close>, which is not \<^verbatim>\<open>=== 0\<close>; \<open>high\<close> is NaN, the loop does not run, and
  \<^verbatim>\<open>instrumentData[0].midiNoteRangeStart\<close> throws in the same way.
\<close>

definition getClosestSpriteNoteData ::
  "AudioSpriteInstrumentsData option \<Rightarrow> string \<Rightarrow> int
     \<Rightarrow> error + (AudioSpriteNoteData \<times> console_msg list)" where
  "getClosestSpriteNoteData instrumentsData instrumentAudio n =
     (case readCatalog instrumentsData instrumentAudio of
        NoValue \<Rightarrow> Inl (NoSuchInstrument instrumentAudio)
      | Method len \<Rightarrow>
          if len = 0 then Inl (InstrumentDataEmpty instrumentAudio)
          else Inl PropertyOfUndefined
      | PrototypeObject \<Rightarrow> Inl PropertyOfUndefined
      | Descriptors instrumentData \<Rightarrow>
          if length instrumentData = 0 then Inl (InstrumentDataEmpty instrumentAudio)
          else
            (case binarySearch instrumentData n 0 (int (length instrumentData) - 1) of
               Inl e \<Rightarrow> Inl e
             | Inr (Some result) \<Rightarrow> Inr (result, [])
             | Inr None \<Rightarrow>
                 if n < midiNoteRangeStart (instrumentData ! 0)
                 then Inr ((instrumentData ! 0)
                             \<lparr>midiNoteRangeStart := 0,
                              midiNoteRangeEnd := midiNoteRangeEnd (instrumentData ! 0)\<rparr>, [])
                 else if n > midiNoteRangeEnd (instrumentData ! (length instrumentData - 1))
                 then Inr ((instrumentData ! (length instrumentData - 1))
                             \<lparr>midiNoteRangeStart :=
                                midiNoteRangeStart (instrumentData ! (length instrumentData - 1)),
                              midiNoteRangeEnd := 127\<rparr>, [])
                 else Inr (closestLoop instrumentData n 1 (instrumentData ! 0)
                             \<bar>n - midiNoteNumber (instrumentData ! 0)\<bar>,
                           [WarnNotInRange n])))"

section \<open>The audio engine\<close>

text \<open>
  The Web Audio engine is outside the module. The model keeps of an \<^verbatim>\<open>AudioContext\<close>
  its clock, a counter that hands out node handles, and the calls the module has made on
  the context and on its nodes, oldest first. The engine is taken to accept every call.
\<close>

type_synonym node = nat

datatype api_call =
    CreateBufferSource node
  | CreateGain node
  | SetBuffer node "nat option"  \<comment> \<open>\<^verbatim>\<open>buffer.buffer = audioSpriteBuffer\<close>\<close>
  | SetLoopStart node real
  | SetLoopEnd node real
  | SetLoop node bool
  | ConnectToGain node node  \<comment> \<open>\<^verbatim>\<open>buffer.connect(gain)\<close>\<close>
  | ConnectToDestination node  \<comment> \<open>\<^verbatim>\<open>.connect(webNoteAudioContext.destination)\<close>\<close>
  | SetDetune node int
  | SetGainValue node real
  | SetTargetAtTime node real real real  \<comment> \<open>target, start time, time constant\<close>
  | CancelScheduledValues node real
  | Start node real real "real option"  \<comment> \<open>when, offset, duration (absent: play on)\<close>
  | Stop node real

record AudioContext =
  currentTime :: real
  nextNode :: node
  calls :: "api_call list"

definition createBufferSource :: "AudioContext \<Rightarrow> node \<times> AudioContext" where
  "createBufferSource ctx =
     (nextNode ctx,
      ctx\<lparr>nextNode := nextNode ctx + 1, calls := calls ctx @ [CreateBufferSource (nextNode ctx)]\<rparr>)"

definition createGain :: "AudioContext \<Rightarrow> node \<times> AudioContext" where
  "createGain ctx =
     (nextNode ctx,
      ctx\<lparr>nextNode := nextNode ctx + 1, calls := calls ctx @ [CreateGain (nextNode ctx)]\<rparr>)"

definition call :: "api_call list \<Rightarrow> AudioContext \<Rightarrow> AudioContext" where
  "call cs ctx = ctx\<lparr>calls := calls ctx @ cs\<rparr>"

section \<open>The voice registry: the object \<^verbatim>\<open>webNoteAudioBuffers\<close>\<close>

text \<open>An entry of the registry: the handles of the source node and of the gain node.\<close>

record voice =
  buffer :: node
  gain :: node

text \<open>
  The registry is created by the object literal \<^verbatim>\<open>{}\<close>, a plain object like the
  catalog. The module reads it with
  \<^verbatim>\<open>webNoteAudioBuffers?.[uuid]\<close>, writes it with \<^verbatim>\<open>webNoteAudioBuffers[uuid] = ...\<close>
  and removes entries with \<^verbatim>\<open>delete\<close>. A read follows the prototype chain, so it also
  finds the members of \<^verbatim>\<open>Object.prototype\<close>; a write to the key \<^verbatim>\<open>__proto__\<close> goes to the
  inherited setter and replaces the prototype instead of adding an entry; \<^verbatim>\<open>delete\<close> only
  removes own properties. \<open>own\<close> holds the entries, \<open>proto\<close> a prototype installed by such
  a write (\<open>None\<close>: still \<^verbatim>\<open>Object.prototype\<close>).
\<close>

record registry =
  own :: "string \<rightharpoonup> voice"
  proto :: "voice option"

definition emptyRegistry :: registry where
  "emptyRegistry = \<lparr>own = Map.empty, proto = None\<rparr>"

text \<open>
  What a read of the registry yields: \<^verbatim>\<open>undefined\<close>, an entry, or an inherited value that
  is not an entry (a method of \<^verbatim>\<open>Object.prototype\<close>, that object itself, or one of the
  two nodes of an installed prototype). The last two are truthy.
\<close>

datatype property_value = Undefined | Entry voice | Inherited

definition getProperty :: "registry \<Rightarrow> string \<Rightarrow> property_value" where
  "getProperty r key =
     (case own r key of
        Some v \<Rightarrow> Entry v
      | None \<Rightarrow>
          (case proto r of
             None \<Rightarrow> if key \<in> set Object_prototype_properties then Inherited else Undefined
           | Some v \<Rightarrow>
               if key = ''__proto__'' then Entry v
               else if key \<in> set [''buffer'', ''gain''] \<or> key \<in> set Object_prototype_properties
               then Inherited else Undefined))"

definition setProperty :: "registry \<Rightarrow> string \<Rightarrow> voice \<Rightarrow> registry" where
  "setProperty r key v =
     (if key = ''__proto__'' then r\<lparr>proto := Some v\<rparr> else r\<lparr>own := (own r)(key \<mapsto> v)\<rparr>)"

definition deleteProperty :: "registry \<Rightarrow> string \<Rightarrow> registry" where
  "deleteProperty r key = r\<lparr>own := (own r)(key := None)\<rparr>"

section \<open>The player\<close>

text \<open>The module's global variables, and the console it writes to.\<close>

record player =
  webNoteAudioContext :: "AudioContext option"
  audioSpriteInstrumentsData :: "AudioSpriteInstrumentsData option"
  audioSpriteBuffer :: "nat option"
  webNoteAudioBuffers :: registry
  console :: "console_msg list"

definition GAIN_TIME_CONSTANT :: real where
  "GAIN_TIME_CONSTANT = 5 / 100"

definition EXTRA_NOTE_DURATION :: real where
  "EXTRA_NOTE_DURATION = 3 / 10"

definition engineCalls :: "player \<Rightarrow> api_call list" where
  "engineCalls s = (case webNoteAudioContext s of None \<Rightarrow> [] | Some ctx \<Rightarrow> calls ctx)"

text \<open>
  The value of \<^verbatim>\<open>detune\<close> of a source node after a sequence of calls: the last value
  assigned to it, and 0, its initial value, before.
\<close>

fun detuneAfter :: "node \<Rightarrow> api_call list \<Rightarrow> int" where
  "detuneAfter b cs =
     fold (\<lambda>c v. case c of SetDetune b' cents \<Rightarrow> if b' = b then cents else v | _ \<Rightarrow> v) cs 0"

definition consoleWrite :: "console_msg list \<Rightarrow> player \<Rightarrow> player" where
  "consoleWrite msgs s = s\<lparr>console := console s @ msgs\<rparr>"

text \<open>
  The parameter \<^verbatim>\<open>noteDuration: number | undefined = 1\<close>. An argument is \<open>None\<close> when it is
  omitted or passed as \<^verbatim>\<open>undefined\<close>; the language replaces both by the default before the
  body runs. The value the body starts with still has the type \<^verbatim>\<open>number | undefined\<close>.
\<close>

definition noteDurationParam :: "real option \<Rightarrow> real option" where
  "noteDurationParam arg = (case arg of None \<Rightarrow> Some 1 | Some d \<Rightarrow> Some d)"

text \<open>The parameters \<^verbatim>\<open>noteVolume: number = 0.6\<close> and \<^verbatim>\<open>noteDelay: number = 0\<close>.\<close>

definition noteVolumeParam :: "real option \<Rightarrow> real" where
  "noteVolumeParam arg = (case arg of None \<Rightarrow> 6 / 10 | Some v \<Rightarrow> v)"

definition noteDelayParam :: "real option \<Rightarrow> real" where
  "noteDelayParam arg = (case arg of None \<Rightarrow> 0 | Some d \<Rightarrow> d)"

text \<open>
  \<^verbatim>\<open>noteDuration > closestSpriteNoteData.noteDuration || noteDuration === undefined\<close>;
  a comparison with \<^verbatim>\<open>undefined\<close> is false.
\<close>

definition isLongNote :: "real option \<Rightarrow> AudioSpriteNoteData \<Rightarrow> bool" where
  "isLongNote duration closestSpriteNoteData =
     ((case duration of None \<Rightarrow> False | Some d \<Rightarrow> d > noteDuration closestSpriteNoteData)
      \<or> duration = None)"

definition useLoop :: "real option \<Rightarrow> AudioSpriteNoteData \<Rightarrow> bool" where
  "useLoop duration closestSpriteNoteData =
     (isLongNote duration closestSpriteNoteData
      \<and> loopStart closestSpriteNoteData \<noteq> None \<and> loopEnd closestSpriteNoteData \<noteq> None)"

text \<open>
  The value of the variable \<^verbatim>\<open>noteDuration\<close> after the loop set-up, where the \<^verbatim>\<open>else\<close>
  branch has assigned \<^verbatim>\<open>closestSpriteNoteData.noteDuration\<close> to a long note that cannot loop.
\<close>

definition clampedNoteDuration :: "real option \<Rightarrow> AudioSpriteNoteData \<Rightarrow> real option" where
  "clampedNoteDuration duration closestSpriteNoteData =
     (if useLoop duration closestSpriteNoteData then duration
      else if isLongNote duration closestSpriteNoteData
      then Some (noteDuration closestSpriteNoteData)
      else duration)"

text \<open>
  \<^verbatim>\<open>webNotePlayerOn\<close>. The whole body is inside \<^verbatim>\<open>try\<close>, and the handler prints the error,
  so the function returns normally with the state reached at the throw. Arguments that
  are omitted or \<^verbatim>\<open>undefined\<close> are \<open>None\<close>.
\<close>

definition webNotePlayerOn ::
  "player \<Rightarrow> string \<Rightarrow> int \<Rightarrow> string option \<Rightarrow> real option \<Rightarrow> real option \<Rightarrow> real option
     \<Rightarrow> player" where
  "webNotePlayerOn s instrumentAudio n uuid durationArg volumeArg delayArg =
     (let duration0 = noteDurationParam durationArg;
          noteVolume = noteVolumeParam volumeArg;
          noteDelay = noteDelayParam delayArg
      in
      case webNoteAudioContext s of
        None \<Rightarrow> consoleWrite [ConsoleError AudioContextNotInitialized] s
      | Some ctx0 \<Rightarrow>
          (let (bufferNode, ctx1) = createBufferSource ctx0;
               (gainNode, ctx2) = createGain ctx1
           in
           case getClosestSpriteNoteData (audioSpriteInstrumentsData s) instrumentAudio n of
             Inl e \<Rightarrow> consoleWrite [ConsoleError e] (s\<lparr>webNoteAudioContext := Some ctx2\<rparr>)
           | Inr (closestSpriteNoteData, warnings) \<Rightarrow>
               (let ctx3 = call [SetBuffer bufferNode (audioSpriteBuffer s)] ctx2;
                    ctx4 =
                      (if useLoop duration0 closestSpriteNoteData
                       then call [SetLoopStart bufferNode (the (loopStart closestSpriteNoteData)),
                                  SetLoopEnd bufferNode (the (loopEnd closestSpriteNoteData)),
                                  SetLoop bufferNode True] ctx3
                       else call [SetLoop bufferNode False] ctx3);
                    duration = clampedNoteDuration duration0 closestSpriteNoteData;
                    ctx5 = call [ConnectToGain bufferNode gainNode,
                                 ConnectToDestination gainNode,
                                 SetDetune bufferNode
                                   ((n - midiNoteNumber closestSpriteNoteData) * 100),
                                 SetGainValue gainNode noteVolume] ctx4;
                    noteStartTime = currentTime ctx5 + noteDelay
                in
                case duration of
                  None \<Rightarrow>
                    (case uuid of
                       Some u \<Rightarrow>
                         consoleWrite warnings
                           (s\<lparr>webNoteAudioContext :=
                                Some (call [Start bufferNode noteStartTime
                                              (noteStart closestSpriteNoteData) None] ctx5),
                              webNoteAudioBuffers :=
                                setProperty (webNoteAudioBuffers s) u
                                  \<lparr>buffer = bufferNode, gain = gainNode\<rparr>\<rparr>)
                     | None \<Rightarrow>
                         consoleWrite (warnings @ [ConsoleError UuidRequired])
                           (s\<lparr>webNoteAudioContext := Some ctx5\<rparr>))
                | Some d \<Rightarrow>
                    consoleWrite warnings
                      (s\<lparr>webNoteAudioContext :=
                           Some (call [SetTargetAtTime gainNode 0 (noteStartTime + d)
                                         GAIN_TIME_CONSTANT,
                                       Start bufferNode noteStartTime
                                         (noteStart closestSpriteNoteData)
                                         (Some (d + EXTRA_NOTE_DURATION))] ctx5)\<rparr>))))"

text \<open>
  \<^verbatim>\<open>webNotePlayerOff\<close> has no handler: what it throws leaves the function. The result is the
  error thrown, if any, and the state. A registry read that yields an inherited value is
  truthy, so the first branch is taken, and there \<^verbatim>\<open>webNoteAudioBuffers[uuid].gain.gain\<close>
  reads a property of \<^verbatim>\<open>undefined\<close>.
\<close>

definition webNotePlayerOff :: "player \<Rightarrow> string \<Rightarrow> error option \<times> player" where
  "webNotePlayerOff s uuid =
     (case webNoteAudioContext s of
        None \<Rightarrow> (None, consoleWrite [ConsoleError AudioContextNotInitialized] s)
      | Some ctx \<Rightarrow>
          (case getProperty (webNoteAudioBuffers s) uuid of
             Entry v \<Rightarrow>
               (None,
                s\<lparr>webNoteAudioContext :=
                     Some (call [CancelScheduledValues (gain v) 0,
                                 SetTargetAtTime (gain v) 0 (currentTime ctx) GAIN_TIME_CONSTANT,
                                 Stop (buffer v) (currentTime ctx + EXTRA_NOTE_DURATION)] ctx),
                   webNoteAudioBuffers := deleteProperty (webNoteAudioBuffers s) uuid\<rparr>)
           | Inherited \<Rightarrow> (Some PropertyOfUndefined, s)
           | Undefined \<Rightarrow> (None, consoleWrite [WarnNonExistentNote uuid] s)))"

text \<open>
  The two listeners of \<^verbatim>\<open>addWebNotePlayerListeners\<close>: each event is handed to its function
  with the fields of its detail. An error thrown by a listener is reported by the event
  target and does not reach later events.
\<close>

datatype event =
    WebNoteOn string int "string option" "real option" "real option" "real option"
      \<comment> \<open>instrumentAudio, midiNoteNumber, uuid, noteDuration, noteVolume, noteDelay\<close>
  | WebNoteOff string

fun listener :: "player \<Rightarrow> event \<Rightarrow> player" where
  "listener s (WebNoteOn instrumentAudio n uuid duration volume delay) =
     webNotePlayerOn s instrumentAudio n uuid duration volume delay"
| "listener s (WebNoteOff uuid) = snd (webNotePlayerOff s uuid)"

fun dispatchEvents :: "player \<Rightarrow> event list \<Rightarrow> player" where
  "dispatchEvents s [] = s"
| "dispatchEvents s (e # es) = dispatchEvents (listener s e) es"

section \<open>Well-formed descriptor sequences\<close>

definition inRange :: "AudioSpriteNoteData \<Rightarrow> int \<Rightarrow> bool" where
  "inRange d n = (midiNoteRangeStart d \<le> n \<and> n \<le> midiNoteRangeEnd d)"

definition sortedByRangeStart :: "AudioSpriteNoteData list \<Rightarrow> bool" where
  "sortedByRangeStart ds = sorted (map midiNoteRangeStart ds)"

text \<open>Two inclusive ranges overlap when they share a pitch.\<close>

definition overlap :: "AudioSpriteNoteData \<Rightarrow> AudioSpriteNoteData \<Rightarrow> bool" where
  "overlap d e =
     (max (midiNoteRangeStart d) (midiNoteRangeStart e)
        \<le> min (midiNoteRangeEnd d) (midiNoteRangeEnd e))"

definition nonOverlapping :: "AudioSpriteNoteData list \<Rightarrow> bool" where
  "nonOverlapping ds = sorted_wrt (\<lambda>d e. \<not> overlap d e) ds"

text \<open>Each range starts right after the one before it ends.\<close>

fun contiguous :: "AudioSpriteNoteData list \<Rightarrow> bool" where
  "contiguous (d # e # ds) =
     (midiNoteRangeStart e = midiNoteRangeEnd d + 1 \<and> contiguous (e # ds))"
| "contiguous ds = True"

definition coversContiguously :: "AudioSpriteNoteData list \<Rightarrow> bool" where
  "coversContiguously ds =
     (ds \<noteq> [] \<and> midiNoteRangeStart (hd ds) \<le> 0 \<and> 127 \<le> midiNoteRangeEnd (last ds)
      \<and> contiguous ds)"

section \<open>Example data\<close>

text \<open>Two descriptors that cover the whole pitch domain, and a catalog holding them.\<close>

definition lowNote :: AudioSpriteNoteData where
  "lowNote = \<lparr>midiNoteNumber = 40, midiNoteRangeStart = 0, midiNoteRangeEnd = 59,
              noteStart = 0, noteDuration = 4, loopStart = Some (7 / 2), loopEnd = Some (15 / 4)\<rparr>"

definition highNote :: AudioSpriteNoteData where
  "highNote = \<lparr>midiNoteNumber = 60, midiNoteRangeStart = 60, midiNoteRangeEnd = 127,
               noteStart = 5, noteDuration = 2, loopStart = None, loopEnd = None\<rparr>"

definition guitarNotes :: "AudioSpriteNoteData list" where
  "guitarNotes = [lowNote, highNote]"

definition guitarCatalog :: AudioSpriteInstrumentsData where
  "guitarCatalog = [''guitar'' \<mapsto> guitarNotes]"

text \<open>Descriptors that leave the two ends of the pitch domain open: 5 to 59 and 60 to 120.\<close>

definition narrowNotes :: "AudioSpriteNoteData list" where
  "narrowNotes = [lowNote\<lparr>midiNoteRangeStart := 5\<rparr>, highNote\<lparr>midiNoteRangeEnd := 120\<rparr>]"

definition narrowCatalog :: AudioSpriteInstrumentsData where
  "narrowCatalog = [''guitar'' \<mapsto> narrowNotes]"

text \<open>Descriptors with a gap between them: 0 to 50 and 60 to 127.\<close>

definition gapNotes :: "AudioSpriteNoteData list" where
  "gapNotes = [lowNote\<lparr>midiNoteRangeEnd := 50\<rparr>, highNote]"

definition gapCatalog :: AudioSpriteInstrumentsData where
  "gapCatalog = [''guitar'' \<mapsto> gapNotes]"

text \<open>Descriptors sorted by range start whose ranges overlap: 0 to 100 and 50 to 60.\<close>

definition overlappingNotes :: "AudioSpriteNoteData list" where
  "overlappingNotes =
     [lowNote\<lparr>midiNoteRangeEnd := 100\<rparr>,
      highNote\<lparr>midiNoteRangeStart := 50, midiNoteRangeEnd := 60\<rparr>]"

definition overlappingCatalog :: AudioSpriteInstrumentsData where
  "overlappingCatalog = [''guitar'' \<mapsto> overlappingNotes]"

text \<open>A player after initialisation: context and catalog installed, nothing played yet.\<close>

definition readyPlayer :: player where
  "readyPlayer =
     \<lparr>webNoteAudioContext = Some \<lparr>currentTime = 0, nextNode = 0, calls = []\<rparr>,
      audioSpriteInstrumentsData = Some guitarCatalog,
      audioSpriteBuffer = Some 0,
      webNoteAudioBuffers = emptyRegistry,
      console = []\<rparr>"

section \<open>Properties of the range resolver\<close>

lemma binarySearch_none:
  "0 \<le> low \<Longrightarrow> high < int (length ds) \<Longrightarrow> \<forall>d\<in>set ds. \<not> inRange d n
     \<Longrightarrow> binarySearch ds n low high = Inr None"
proof (induction ds n low high rule: binarySearch.induct)
  case (1 ds n low high)
  show ?case
  proof (cases "low \<le> high")
    case False
    then show ?thesis by (subst binarySearch.simps) simp
  next
    case True
    define mid where "mid = (low + high) div 2"
    have mid: "low \<le> mid" "mid \<le> high" using True by (auto simp: mid_def)
    then have inb: "\<not> (mid < 0 \<or> int (length ds) \<le> mid)" using "1.prems" by auto
    have mem: "ds ! nat mid \<in> set ds" using inb by auto
    then have nr: "\<not> inRange (ds ! nat mid) n" using "1.prems" by blast
    show ?thesis
    proof (cases "n < midiNoteRangeStart (ds ! nat mid)")
      case True
      have "binarySearch ds n low (mid - 1) = Inr None"
        using "1.IH"(1)[OF \<open>low \<le> high\<close> mid_def inb refl _ True] nr "1.prems" mid
        by (auto simp: inRange_def)
      then show ?thesis
        using \<open>low \<le> high\<close> inb nr True
        by (subst binarySearch.simps) (auto simp: Let_def mid_def inRange_def)
    next
      case False
      have "binarySearch ds n (mid + 1) high = Inr None"
        using "1.IH"(2)[OF \<open>low \<le> high\<close> mid_def inb refl _ False] nr "1.prems" mid
        by (auto simp: inRange_def)
      then show ?thesis
        using \<open>low \<le> high\<close> inb nr False
        by (subst binarySearch.simps) (auto simp: Let_def mid_def inRange_def)
    qed
  qed
qed

lemma binarySearch_found:
  "sortedByRangeStart ds \<Longrightarrow> sorted_wrt (\<lambda>d e. midiNoteRangeEnd d < midiNoteRangeStart e) ds \<Longrightarrow> 0 \<le> low \<Longrightarrow> high < int (length ds)
     \<Longrightarrow> low \<le> int k \<Longrightarrow> int k \<le> high \<Longrightarrow> inRange (ds ! k) n
     \<Longrightarrow> \<exists>d\<in>set ds. binarySearch ds n low high = Inr (Some d) \<and> inRange d n"
proof (induction ds n low high rule: binarySearch.induct)
  case (1 ds n low high)
  have lh: "low \<le> high" using "1.prems" by linarith
  define mid where "mid = (low + high) div 2"
  have mid: "low \<le> mid" "mid \<le> high" using lh by (auto simp: mid_def)
  then have inb: "\<not> (mid < 0 \<or> int (length ds) \<le> mid)" using "1.prems" by auto
  have mem: "ds ! nat mid \<in> set ds" using inb by auto
  have klen: "k < length ds" using "1.prems" by linarith
  have srt: "\<And>i j. i \<le> j \<Longrightarrow> j < length ds
      \<Longrightarrow> midiNoteRangeStart (ds ! i) \<le> midiNoteRangeStart (ds ! j)"
    using "1.prems"(1) unfolding sortedByRangeStart_def
    by (metis (no_types, lifting) length_map nth_map order_le_less_trans sorted_iff_nth_mono)
  have ord: "\<And>i j. i < j \<Longrightarrow> j < length ds
      \<Longrightarrow> midiNoteRangeEnd (ds ! i) < midiNoteRangeStart (ds ! j)"
    using "1.prems"(2) by (simp add: sorted_wrt_iff_nth_less)
  show ?case
  proof (cases "inRange (ds ! nat mid) n")
    case True
    then have "binarySearch ds n low high = Inr (Some (ds ! nat mid))"
      using lh inb by (subst binarySearch.simps) (auto simp: Let_def mid_def inRange_def)
    then show ?thesis using mem True by blast
  next
    case nr: False
    show ?thesis
    proof (cases "n < midiNoteRangeStart (ds ! nat mid)")
      case True
      have "int k < mid"
      proof (rule ccontr)
        assume "\<not> int k < mid"
        then have "nat mid \<le> k" by linarith
        from srt[OF this klen] True "1.prems"(7) show False by (simp add: inRange_def)
      qed
      then have "int k \<le> mid - 1" by simp
      from "1.IH"(1)[OF lh mid_def inb refl _ True "1.prems"(1,2,3) _ "1.prems"(5) this "1.prems"(7)]
      have "\<exists>d\<in>set ds. binarySearch ds n low (mid - 1) = Inr (Some d) \<and> inRange d n"
        using nr "1.prems" mid by (auto simp: inRange_def)
      then show ?thesis
        using lh inb nr True
        by (subst binarySearch.simps) (auto simp: Let_def mid_def inRange_def)
    next
      case False
      have "mid < int k"
      proof (rule ccontr)
        assume a: "\<not> mid < int k"
        have "k \<noteq> nat mid" using nr "1.prems"(7) by auto
        with a have "k < nat mid" using inb by linarith
        moreover have "nat mid < length ds" using inb by linarith
        ultimately have "midiNoteRangeEnd (ds ! k) < midiNoteRangeStart (ds ! nat mid)"
          by (rule ord)
        with False "1.prems"(7) show False by (simp add: inRange_def)
      qed
      then have "mid + 1 \<le> int k" by simp
      from "1.IH"(2)[OF lh mid_def inb refl _ False "1.prems"(1,2) _ "1.prems"(4) this "1.prems"(6,7)]
      have "\<exists>d\<in>set ds. binarySearch ds n (mid + 1) high = Inr (Some d) \<and> inRange d n"
        using nr "1.prems" mid by (auto simp: inRange_def)
      then show ?thesis
        using lh inb nr False
        by (subst binarySearch.simps) (auto simp: Let_def mid_def inRange_def)
    qed
  qed
qed

lemma contiguous_covers:
  "contiguous ds \<Longrightarrow> ds \<noteq> [] \<Longrightarrow> midiNoteRangeStart (hd ds) \<le> n \<Longrightarrow> n \<le> midiNoteRangeEnd (last ds)
     \<Longrightarrow> \<exists>d\<in>set ds. inRange d n"
proof (induction ds rule: contiguous.induct)
  case (1 d e ds)
  show ?case
  proof (cases "n \<le> midiNoteRangeEnd d")
    case True
    then show ?thesis using "1.prems" by (auto simp: inRange_def)
  next
    case False
    then have "\<exists>d\<in>set (e # ds). inRange d n" using "1.prems" by (intro "1.IH") auto
    then show ?thesis by auto
  qed
qed (auto simp: inRange_def)

lemma contiguous_sorted_ordered:
  "contiguous ds \<Longrightarrow> sorted (map midiNoteRangeStart ds)
     \<Longrightarrow> sorted_wrt (\<lambda>d e. midiNoteRangeEnd d < midiNoteRangeStart e) ds"
proof (induction ds rule: contiguous.induct)
  case (1 d e ds)
  then show ?case by fastforce
qed auto

lemma closestLoop_min:
  "closest \<in> set ds \<Longrightarrow> minDiff = \<bar>n - midiNoteNumber closest\<bar>
     \<Longrightarrow> \<forall>k<i. minDiff \<le> \<bar>n - midiNoteNumber (ds ! k)\<bar>
     \<Longrightarrow> closestLoop ds n i closest minDiff \<in> set ds
         \<and> (\<forall>k<length ds. \<bar>n - midiNoteNumber (closestLoop ds n i closest minDiff)\<bar>
                 \<le> \<bar>n - midiNoteNumber (ds ! k)\<bar>)"
proof (induction ds n i closest minDiff rule: closestLoop.induct)
  case (1 ds n i closest minDiff)
  show ?case
  proof (cases "i < length ds")
    case False
    then show ?thesis using "1.prems" by (subst (1 2) closestLoop.simps) auto
  next
    case True
    show ?thesis
    proof (cases "\<bar>n - midiNoteNumber (ds ! i)\<bar> < minDiff")
      case lt: True
      have "\<forall>k<i + 1. \<bar>n - midiNoteNumber (ds ! i)\<bar> \<le> \<bar>n - midiNoteNumber (ds ! k)\<bar>"
        using "1.prems"(3) lt by (auto simp: less_Suc_eq)
      from "1.IH"(1)[OF True refl lt _ refl this] True
      show ?thesis using lt by (subst (1 2) closestLoop.simps) (simp add: Let_def)
    next
      case ge: False
      have "\<forall>k<i + 1. minDiff \<le> \<bar>n - midiNoteNumber (ds ! k)\<bar>"
        using "1.prems"(3) ge by (auto simp: less_Suc_eq)
      from "1.IH"(2)[OF True refl ge "1.prems"(1,2) this] True
      show ?thesis using ge by (subst (1 2) closestLoop.simps) (simp add: Let_def)
    qed
  qed
qed

lemma sorted_hd_least:
  "sortedByRangeStart ds \<Longrightarrow> d \<in> set ds \<Longrightarrow> midiNoteRangeStart (hd ds) \<le> midiNoteRangeStart d"
  by (cases ds) (auto simp: sortedByRangeStart_def)

text \<open>
  C1: For a descriptor sequence that is sorted ascending by range start, has pairwise
  non-overlapping inclusive ranges and covers the pitches 0 to 127 contiguously, and for
  every pitch from 0 to 127, the resolver returns (without a warning) a descriptor of the
  sequence whose inclusive range contains the pitch.
\<close>

theorem C1_resolve_in_range:
  assumes "instrumentsData = Some data" and "data instrumentAudio = Some ds"
    and "sortedByRangeStart ds" and "nonOverlapping ds" and "coversContiguously ds"
    and "0 \<le> n" and "n \<le> 127"
  shows "\<exists>d\<in>set ds. getClosestSpriteNoteData instrumentsData instrumentAudio n = Inr (d, [])
           \<and> midiNoteRangeStart d \<le> n \<and> n \<le> midiNoteRangeEnd d"
proof -
  from assms(5) have ne: "ds \<noteq> []" and cont: "contiguous ds"
    and lo: "midiNoteRangeStart (hd ds) \<le> n" and hi: "n \<le> midiNoteRangeEnd (last ds)"
    using assms(6,7) by (auto simp: coversContiguously_def)
  from contiguous_covers[OF cont ne lo hi] obtain k where k: "k < length ds" "inRange (ds ! k) n"
    by (auto simp: in_set_conv_nth)
  have ord: "sorted_wrt (\<lambda>d e. midiNoteRangeEnd d < midiNoteRangeStart e) ds"
    using contiguous_sorted_ordered[OF cont] assms(3) by (simp add: sortedByRangeStart_def)
  have "\<exists>d\<in>set ds. binarySearch ds n 0 (int (length ds) - 1) = Inr (Some d) \<and> inRange d n"
    using k by (intro binarySearch_found[OF assms(3) ord, where k = k]) auto
  then show ?thesis
    using assms(1,2) ne by (auto simp: getClosestSpriteNoteData_def readCatalog_def inRange_def)
qed

text \<open>The two-descriptor catalog at pitch 63.\<close>

theorem C1_resolve_in_range_witness:
  "sortedByRangeStart guitarNotes \<and> nonOverlapping guitarNotes
   \<and> coversContiguously guitarNotes
   \<and> getClosestSpriteNoteData (Some guitarCatalog) ''guitar'' 63 = Inr (highNote, [])
   \<and> midiNoteRangeStart highNote \<le> 63 \<and> 63 \<le> midiNoteRangeEnd highNote"
  using C1_resolve_in_range [of "Some guitarCatalog" guitarCatalog "''guitar''" guitarNotes 63]
  by (auto simp: guitarCatalog_def guitarNotes_def sortedByRangeStart_def nonOverlapping_def
      overlap_def coversContiguously_def lowNote_def highNote_def)

text \<open>
  C4, as amended: For a non-empty descriptor sequence: if it is sorted by range start and
  the pitch is strictly below the first descriptor's range start, the resolver returns the
  first descriptor with its range start replaced by 0 and every other field unchanged; if
  no descriptor's inclusive range contains the pitch, the pitch is not below the first
  descriptor's range start and is strictly above the last descriptor's range end, the
  resolver returns the last descriptor with its range end replaced by 127 and every other
  field unchanged.
\<close>

theorem C4_boundary_widening:
  assumes "instrumentsData = Some data" and "data instrumentAudio = Some ds" and "ds \<noteq> []"
  shows "(sortedByRangeStart ds \<and> n < midiNoteRangeStart (hd ds)
            \<longrightarrow> getClosestSpriteNoteData instrumentsData instrumentAudio n
                  = Inr ((hd ds)\<lparr>midiNoteRangeStart := 0\<rparr>, []))
       \<and> ((\<forall>d\<in>set ds. \<not> inRange d n) \<and> \<not> n < midiNoteRangeStart (hd ds)
              \<and> n > midiNoteRangeEnd (last ds)
            \<longrightarrow> getClosestSpriteNoteData instrumentsData instrumentAudio n
                  = Inr ((last ds)\<lparr>midiNoteRangeEnd := 127\<rparr>, []))"
proof -
  have none: "binarySearch ds n 0 (int (length ds) - 1) = Inr None"
    if "\<forall>d\<in>set ds. \<not> inRange d n"
    using that by (intro binarySearch_none) auto
  have below: "\<forall>d\<in>set ds. \<not> inRange d n"
    if "sortedByRangeStart ds" "n < midiNoteRangeStart (hd ds)"
    using sorted_hd_least[OF that(1)] that(2) by (fastforce simp: inRange_def)
  show ?thesis
    using assms none below
    by (auto simp: getClosestSpriteNoteData_def readCatalog_def hd_conv_nth last_conv_nth)
qed

text \<open>Ranges 5 to 59 and 60 to 120, resolved at pitches 0 and 127.\<close>

theorem C4_boundary_widening_witness:
  "narrowNotes \<noteq> [] \<and> sortedByRangeStart narrowNotes
   \<and> getClosestSpriteNoteData (Some narrowCatalog) ''guitar'' 0
       = Inr (lowNote\<lparr>midiNoteRangeStart := 0\<rparr>, [])
   \<and> getClosestSpriteNoteData (Some narrowCatalog) ''guitar'' 127
       = Inr (highNote\<lparr>midiNoteRangeEnd := 127\<rparr>, [])"
  using C4_boundary_widening [of "Some narrowCatalog" narrowCatalog "''guitar''" narrowNotes 0]
    C4_boundary_widening [of "Some narrowCatalog" narrowCatalog "''guitar''" narrowNotes 127]
  by (simp add: narrowCatalog_def narrowNotes_def sortedByRangeStart_def inRange_def
      lowNote_def highNote_def)

text \<open>
  C4 as it is stated fails where an earlier descriptor's range reaches beyond the last
  one's: with ranges 0 to 100 and 50 to 60, pitch 70 is above the last range end, yet the
  binary search finds the first descriptor and returns it as it is.
\<close>

theorem C4_claim_counterexample:
  "overlappingNotes \<noteq> [] \<and> sortedByRangeStart overlappingNotes
   \<and> 70 > midiNoteRangeEnd (last overlappingNotes)
   \<and> getClosestSpriteNoteData (Some overlappingCatalog) ''guitar'' 70
       = Inr (hd overlappingNotes, [])
   \<and> getClosestSpriteNoteData (Some overlappingCatalog) ''guitar'' 70
       \<noteq> Inr ((last overlappingNotes)\<lparr>midiNoteRangeEnd := 127\<rparr>, [])"
  by (simp add: overlappingCatalog_def overlappingNotes_def sortedByRangeStart_def
      getClosestSpriteNoteData_def readCatalog_def binarySearch.simps lowNote_def highNote_def)

text \<open>
  C5: For a non-empty descriptor sequence and a pitch that no descriptor's inclusive
  range contains, that is not below the first descriptor's range start and not above the
  last descriptor's range end, the resolver returns a descriptor of the sequence whose
  sampled pitch is at least as close to the pitch as that of every other descriptor, and
  writes the not-in-range warning.
\<close>

theorem C5_gap_fallback:
  assumes "instrumentsData = Some data" and "data instrumentAudio = Some ds" and "ds \<noteq> []"
    and "\<forall>d\<in>set ds. \<not> inRange d n"
    and "\<not> n < midiNoteRangeStart (hd ds)" and "\<not> n > midiNoteRangeEnd (last ds)"
  shows "\<exists>d\<in>set ds.
           getClosestSpriteNoteData instrumentsData instrumentAudio n = Inr (d, [WarnNotInRange n])
           \<and> (\<forall>e\<in>set ds. \<bar>n - midiNoteNumber d\<bar> \<le> \<bar>n - midiNoteNumber e\<bar>)"
proof -
  have none: "binarySearch ds n 0 (int (length ds) - 1) = Inr None"
    using assms(4) by (intro binarySearch_none) auto
  let ?c = "closestLoop ds n 1 (ds ! 0) \<bar>n - midiNoteNumber (ds ! 0)\<bar>"
  have "ds ! 0 \<in> set ds" using assms(3) by simp
  then have c: "?c \<in> set ds
      \<and> (\<forall>k<length ds. \<bar>n - midiNoteNumber ?c\<bar> \<le> \<bar>n - midiNoteNumber (ds ! k)\<bar>)"
    by (intro closestLoop_min) auto
  then have "\<forall>e\<in>set ds. \<bar>n - midiNoteNumber ?c\<bar> \<le> \<bar>n - midiNoteNumber e\<bar>"
    by (auto simp: in_set_conv_nth)
  moreover have "getClosestSpriteNoteData instrumentsData instrumentAudio n
      = Inr (?c, [WarnNotInRange n])"
    using assms none by (simp add: getClosestSpriteNoteData_def readCatalog_def hd_conv_nth last_conv_nth)
  ultimately show ?thesis using c by auto
qed

text \<open>
  Ranges 0 to 50 and 60 to 127, resolved at pitch 55: the sampled pitches are 40 and 60,
  and the second descriptor is returned.
\<close>

theorem C5_gap_fallback_witness:
  "getClosestSpriteNoteData (Some gapCatalog) ''guitar'' 55 = Inr (highNote, [WarnNotInRange 55])
   \<and> \<bar>55 - midiNoteNumber highNote\<bar> = 5
   \<and> \<bar>55 - midiNoteNumber (lowNote\<lparr>midiNoteRangeEnd := 50\<rparr>)\<bar> = 15"
  using C5_gap_fallback [of "Some gapCatalog" gapCatalog "''guitar''" gapNotes 55]
  by (auto simp: gapCatalog_def gapNotes_def inRange_def lowNote_def highNote_def)

text \<open>
  The two guards: the unknown-instrument error where the read of the catalog yields
  undefined, the empty-data error where the instrument's array has length zero.
\<close>

lemma getClosestSpriteNoteData_guards:
  "(readCatalog instrumentsData instrumentAudio = NoValue
      \<longrightarrow> getClosestSpriteNoteData instrumentsData instrumentAudio n
            = Inl (NoSuchInstrument instrumentAudio))
   \<and> (instrumentsData = Some data \<and> data instrumentAudio = Some []
      \<longrightarrow> getClosestSpriteNoteData instrumentsData instrumentAudio n
            = Inl (InstrumentDataEmpty instrumentAudio))"
  by (simp add: getClosestSpriteNoteData_def readCatalog_def)

lemma readCatalog_NoValue:
  "readCatalog instrumentsData instrumentAudio = NoValue \<longleftrightarrow>
     instrumentsData = None
     \<or> (\<exists>data. instrumentsData = Some data \<and> data instrumentAudio = None
           \<and> instrumentAudio \<notin> set Object_prototype_properties)"
proof (cases instrumentsData)
  case None
  then show ?thesis by (simp add: readCatalog_def)
next
  case (Some data)
  have "map_of Object_prototype_methods instrumentAudio = None
      \<longleftrightarrow> instrumentAudio \<notin> fst ` set Object_prototype_methods"
    by (simp add: map_of_eq_None_iff)
  with Some show ?thesis
    by (auto simp: readCatalog_def Object_prototype_properties_def
        split: option.splits)
qed

text \<open>
  C8 asks that resolution fails with the unknown-instrument error whenever the
  instrument name has no entry in the catalog. The code does otherwise for a name that
  the catalog inherits from \<^verbatim>\<open>Object.prototype\<close>: in the example catalog, whose only
  entry is the guitar, \<^verbatim>\<open>toString\<close> fails with the empty-data error and
  \<^verbatim>\<open>constructor\<close> with the TypeError of reading a property of undefined. No descriptor
  is returned in either case.
\<close>

theorem C8_inherited_name_not_unknown:
  "guitarCatalog ''toString'' = None
   \<and> getClosestSpriteNoteData (Some guitarCatalog) ''toString'' 60
       = Inl (InstrumentDataEmpty ''toString'')
   \<and> guitarCatalog ''constructor'' = None
   \<and> getClosestSpriteNoteData (Some guitarCatalog) ''constructor'' 60
       = Inl PropertyOfUndefined"
  by (simp add: guitarCatalog_def getClosestSpriteNoteData_def readCatalog_def
      Object_prototype_methods_def)

section \<open>Properties of the player\<close>

lemma clampedNoteDuration_defined:
  "\<exists>d. clampedNoteDuration (noteDurationParam durationArg) closestSpriteNoteData = Some d"
  by (cases durationArg) (auto simp: clampedNoteDuration_def noteDurationParam_def isLongNote_def)

lemma binarySearch_error:
  "binarySearch ds n low high = Inl e \<Longrightarrow> e = PropertyOfUndefined"
proof (induction ds n low high rule: binarySearch.induct)
  case (1 ds n low high)
  show ?case
  proof (cases "low \<le> high")
    case False
    with "1.prems" show ?thesis by (subst (asm) binarySearch.simps) simp
  next
    case True
    define mid where "mid = (low + high) div 2"
    show ?thesis
    proof (cases "mid < 0 \<or> int (length ds) \<le> mid")
      case True
      with "1.prems" \<open>low \<le> high\<close> show ?thesis
        by (subst (asm) binarySearch.simps) (simp add: Let_def mid_def)
    next
      case inb: False
      show ?thesis
      proof (cases "inRange (ds ! nat mid) n")
        case True
        with "1.prems" \<open>low \<le> high\<close> inb show ?thesis
          by (subst (asm) binarySearch.simps) (simp add: Let_def mid_def inRange_def)
      next
        case nr: False
        show ?thesis
        proof (cases "n < midiNoteRangeStart (ds ! nat mid)")
          case True
          have "binarySearch ds n low (mid - 1) = Inl e"
            using "1.prems" \<open>low \<le> high\<close> inb nr True
            by (subst (asm) binarySearch.simps) (simp add: Let_def mid_def inRange_def)
          then show ?thesis
            using nr by (intro "1.IH"(1)[OF \<open>low \<le> high\<close> mid_def inb refl _ True])
              (auto simp: inRange_def)
        next
          case False
          have "binarySearch ds n (mid + 1) high = Inl e"
            using "1.prems" \<open>low \<le> high\<close> inb nr False
            by (subst (asm) binarySearch.simps) (simp add: Let_def mid_def inRange_def)
          then show ?thesis
            using nr by (intro "1.IH"(2)[OF \<open>low \<le> high\<close> mid_def inb refl _ False])
              (auto simp: inRange_def)
        qed
      qed
    qed
  qed
qed

lemma getClosestSpriteNoteData_error:
  "getClosestSpriteNoteData instrumentsData instrumentAudio n = Inl e \<Longrightarrow> e \<noteq> UuidRequired"
  by (auto simp: getClosestSpriteNoteData_def readCatalog_def
      split: catalog_value.splits option.splits if_splits sum.splits dest: binarySearch_error)

lemma getClosestSpriteNoteData_warnings:
  "getClosestSpriteNoteData instrumentsData instrumentAudio n = Inr (d, warnings)
     \<Longrightarrow> ConsoleError e \<notin> set warnings"
  by (auto simp: getClosestSpriteNoteData_def readCatalog_def
      split: catalog_value.splits option.splits if_splits sum.splits)

text \<open>What a note-on request does once the context exists and the resolver has answered.\<close>

lemma webNotePlayerOn_resolved:
  assumes "webNoteAudioContext s = Some ctx"
    and "getClosestSpriteNoteData (audioSpriteInstrumentsData s) instrumentAudio n
           = Inr (d, warnings)"
    and "clampedNoteDuration (noteDurationParam durationArg) d = Some x"
  shows "webNotePlayerOn s instrumentAudio n uuid durationArg volumeArg delayArg =
     s\<lparr>webNoteAudioContext := Some (ctx
          \<lparr>nextNode := nextNode ctx + 2,
           calls := calls ctx @
             [CreateBufferSource (nextNode ctx), CreateGain (nextNode ctx + 1),
              SetBuffer (nextNode ctx) (audioSpriteBuffer s)] @
             (if useLoop (noteDurationParam durationArg) d
              then [SetLoopStart (nextNode ctx) (the (loopStart d)),
                    SetLoopEnd (nextNode ctx) (the (loopEnd d)),
                    SetLoop (nextNode ctx) True]
              else [SetLoop (nextNode ctx) False]) @
             [ConnectToGain (nextNode ctx) (nextNode ctx + 1),
              ConnectToDestination (nextNode ctx + 1),
              SetDetune (nextNode ctx) ((n - midiNoteNumber d) * 100),
              SetGainValue (nextNode ctx + 1) (noteVolumeParam volumeArg),
              SetTargetAtTime (nextNode ctx + 1) 0
                (currentTime ctx + noteDelayParam delayArg + x) GAIN_TIME_CONSTANT,
              Start (nextNode ctx) (currentTime ctx + noteDelayParam delayArg) (noteStart d)
                (Some (x + EXTRA_NOTE_DURATION))]\<rparr>),
       console := console s @ warnings\<rparr>"
  using assms
  by (simp add: webNotePlayerOn_def createBufferSource_def createGain_def call_def
      consoleWrite_def Let_def)

lemma webNotePlayerOn_registry:
  "webNoteAudioBuffers (webNotePlayerOn s instrumentAudio n uuid durationArg volumeArg delayArg)
     = webNoteAudioBuffers s"
proof (cases "webNoteAudioContext s")
  case None
  then show ?thesis by (simp add: webNotePlayerOn_def consoleWrite_def)
next
  case (Some ctx)
  show ?thesis
  proof (cases "getClosestSpriteNoteData (audioSpriteInstrumentsData s) instrumentAudio n")
    case (Inl e)
    with Some show ?thesis
      by (simp add: webNotePlayerOn_def consoleWrite_def createBufferSource_def createGain_def)
  next
    case (Inr r)
    obtain d warnings where r: "r = (d, warnings)" by (cases r)
    obtain x where "clampedNoteDuration (noteDurationParam durationArg) d = Some x"
      using clampedNoteDuration_defined by blast
    from webNotePlayerOn_resolved[OF Some Inr[unfolded r] this] show ?thesis by simp
  qed
qed

lemma webNotePlayerOn_console:
  "\<exists>msgs. console (webNotePlayerOn s instrumentAudio n uuid durationArg volumeArg delayArg)
             = console s @ msgs \<and> ConsoleError UuidRequired \<notin> set msgs"
proof (cases "webNoteAudioContext s")
  case None
  then show ?thesis by (simp add: webNotePlayerOn_def consoleWrite_def)
next
  case (Some ctx)
  show ?thesis
  proof (cases "getClosestSpriteNoteData (audioSpriteInstrumentsData s) instrumentAudio n")
    case (Inl e)
    with Some getClosestSpriteNoteData_error[OF Inl] show ?thesis
      by (simp add: webNotePlayerOn_def consoleWrite_def createBufferSource_def createGain_def)
  next
    case (Inr r)
    obtain d warnings where r: "r = (d, warnings)" by (cases r)
    obtain x where "clampedNoteDuration (noteDurationParam durationArg) d = Some x"
      using clampedNoteDuration_defined by blast
    from webNotePlayerOn_resolved[OF Some Inr[unfolded r] this]
      getClosestSpriteNoteData_warnings[OF Inr[unfolded r]]
    show ?thesis by simp
  qed
qed

lemma webNotePlayerOff_emptyRegistry:
  "webNoteAudioBuffers s = emptyRegistry
     \<Longrightarrow> webNoteAudioBuffers (snd (webNotePlayerOff s uuid)) = emptyRegistry"
  by (auto simp: webNotePlayerOff_def getProperty_def emptyRegistry_def consoleWrite_def
      split: option.splits)

lemma dispatchEvents_emptyRegistry:
  "webNoteAudioBuffers s = emptyRegistry
     \<Longrightarrow> webNoteAudioBuffers (dispatchEvents s events) = emptyRegistry"
proof (induction events arbitrary: s)
  case Nil
  then show ?case by simp
next
  case (Cons e events)
  have "webNoteAudioBuffers (listener s e) = emptyRegistry"
    using Cons.prems by (cases e) (simp_all add: webNotePlayerOn_registry webNotePlayerOff_emptyRegistry)
  then show ?case using Cons.IH by simp
qed

text \<open>
  C10: The default of the duration parameter replaces an argument passed as undefined
  by 1 before the body runs, so at the test for an undefined duration the variable always
  holds a number; a note-on request therefore never changes the voice registry and never
  reports the missing-identifier error, and the registry, empty at the start, is empty
  after every sequence of note-on and note-off events.
\<close>

theorem C10_registry_stays_empty:
  "clampedNoteDuration (noteDurationParam durationArg) closestSpriteNoteData \<noteq> None
   \<and> webNoteAudioBuffers
        (webNotePlayerOn s instrumentAudio n uuid durationArg volumeArg delayArg)
       = webNoteAudioBuffers s
   \<and> (\<exists>msgs. console (webNotePlayerOn s instrumentAudio n uuid durationArg volumeArg delayArg)
               = console s @ msgs \<and> ConsoleError UuidRequired \<notin> set msgs)
   \<and> webNoteAudioBuffers (dispatchEvents (s\<lparr>webNoteAudioBuffers := emptyRegistry\<rparr>) events)
       = emptyRegistry"
  using clampedNoteDuration_defined [of durationArg closestSpriteNoteData]
    webNotePlayerOn_registry webNotePlayerOn_console
    dispatchEvents_emptyRegistry [of "s\<lparr>webNoteAudioBuffers := emptyRegistry\<rparr>" events]
  by auto

text \<open>A sustain request, its stop request and a request without identifier.\<close>

theorem C10_registry_stays_empty_witness:
  "webNoteAudioBuffers
     (dispatchEvents readyPlayer
        [WebNoteOn ''guitar'' 40 (Some ''a'') None None None, WebNoteOff ''a'',
         WebNoteOn ''guitar'' 63 None None None None])
     = emptyRegistry"
  using C10_registry_stays_empty [of None lowNote readyPlayer "''guitar''" 40 None None None
      "[WebNoteOn ''guitar'' 40 (Some ''a'') None None None, WebNoteOff ''a'',
        WebNoteOn ''guitar'' 63 None None None None]"]
  by (simp add: readyPlayer_def)

text \<open>The example catalog resolved at pitches 63 and 40.\<close>

lemma resolve_guitar_63:
  "getClosestSpriteNoteData (Some guitarCatalog) ''guitar'' 63 = Inr (highNote, [])"
  by (simp add: guitarCatalog_def guitarNotes_def getClosestSpriteNoteData_def readCatalog_def
      binarySearch.simps lowNote_def highNote_def)

lemma resolve_guitar_40:
  "getClosestSpriteNoteData (Some guitarCatalog) ''guitar'' 40 = Inr (lowNote, [])"
  by (simp add: guitarCatalog_def guitarNotes_def getClosestSpriteNoteData_def readCatalog_def
      binarySearch.simps lowNote_def highNote_def)

text \<open>
  C6: For a note-on request with a finite duration greater than the natural duration of
  the resolved descriptor: when the descriptor lacks a loop point, looping is switched off
  and the note is scheduled with the descriptor's natural duration (the fade begins that
  long after the start, and the source plays that long plus the extra 0.3 s); when the
  descriptor has both loop points, the source is set to loop between them and the
  requested duration is kept. The calls reaching the audio engine are listed in full.
\<close>

theorem C6_long_finite_note:
  assumes "webNoteAudioContext s = Some ctx"
    and "getClosestSpriteNoteData (audioSpriteInstrumentsData s) instrumentAudio n
           = Inr (d, warnings)"
    and "x > noteDuration d"
  shows "(loopStart d = None \<or> loopEnd d = None \<longrightarrow>
            engineCalls (webNotePlayerOn s instrumentAudio n uuid (Some x) volumeArg delayArg) =
              calls ctx @
              [CreateBufferSource (nextNode ctx), CreateGain (nextNode ctx + 1),
               SetBuffer (nextNode ctx) (audioSpriteBuffer s),
               SetLoop (nextNode ctx) False,
               ConnectToGain (nextNode ctx) (nextNode ctx + 1),
               ConnectToDestination (nextNode ctx + 1),
               SetDetune (nextNode ctx) ((n - midiNoteNumber d) * 100),
               SetGainValue (nextNode ctx + 1) (noteVolumeParam volumeArg),
               SetTargetAtTime (nextNode ctx + 1) 0
                 (currentTime ctx + noteDelayParam delayArg + noteDuration d) GAIN_TIME_CONSTANT,
               Start (nextNode ctx) (currentTime ctx + noteDelayParam delayArg) (noteStart d)
                 (Some (noteDuration d + EXTRA_NOTE_DURATION))])
       \<and> (loopStart d \<noteq> None \<and> loopEnd d \<noteq> None \<longrightarrow>
            engineCalls (webNotePlayerOn s instrumentAudio n uuid (Some x) volumeArg delayArg) =
              calls ctx @
              [CreateBufferSource (nextNode ctx), CreateGain (nextNode ctx + 1),
               SetBuffer (nextNode ctx) (audioSpriteBuffer s),
               SetLoopStart (nextNode ctx) (the (loopStart d)),
               SetLoopEnd (nextNode ctx) (the (loopEnd d)),
               SetLoop (nextNode ctx) True,
               ConnectToGain (nextNode ctx) (nextNode ctx + 1),
               ConnectToDestination (nextNode ctx + 1),
               SetDetune (nextNode ctx) ((n - midiNoteNumber d) * 100),
               SetGainValue (nextNode ctx + 1) (noteVolumeParam volumeArg),
               SetTargetAtTime (nextNode ctx + 1) 0
                 (currentTime ctx + noteDelayParam delayArg + x) GAIN_TIME_CONSTANT,
               Start (nextNode ctx) (currentTime ctx + noteDelayParam delayArg) (noteStart d)
                 (Some (x + EXTRA_NOTE_DURATION))])"
proof -
  have long: "isLongNote (noteDurationParam (Some x)) d"
    using assms(3) by (simp add: isLongNote_def noteDurationParam_def)
  show ?thesis
  proof (cases "loopStart d \<noteq> None \<and> loopEnd d \<noteq> None")
    case True
    then have l: "useLoop (noteDurationParam (Some x)) d" using long by (simp add: useLoop_def)
    then have "clampedNoteDuration (noteDurationParam (Some x)) d = Some x"
      by (simp add: clampedNoteDuration_def noteDurationParam_def)
    from webNotePlayerOn_resolved[OF assms(1,2) this] l True show ?thesis
      by (simp add: engineCalls_def)
  next
    case False
    then have l: "\<not> useLoop (noteDurationParam (Some x)) d" by (simp add: useLoop_def)
    then have "clampedNoteDuration (noteDurationParam (Some x)) d = Some (noteDuration d)"
      using long by (simp add: clampedNoteDuration_def)
    from webNotePlayerOn_resolved[OF assms(1,2) this] l False show ?thesis
      by (auto simp: engineCalls_def)
  qed
qed

text \<open>
  Duration 10 at pitch 63, whose descriptor lasts 2 s and has no loop points, and at pitch
  40, whose descriptor lasts 4 s and has them.
\<close>

theorem C6_long_finite_note_witness:
  "engineCalls (webNotePlayerOn readyPlayer ''guitar'' 63 None (Some 10) None None) =
     [CreateBufferSource 0, CreateGain 1, SetBuffer 0 (Some 0), SetLoop 0 False,
      ConnectToGain 0 1, ConnectToDestination 1, SetDetune 0 300, SetGainValue 1 (6 / 10),
      SetTargetAtTime 1 0 2 (5 / 100), Start 0 0 5 (Some (2 + 3 / 10))]
   \<and> engineCalls (webNotePlayerOn readyPlayer ''guitar'' 40 None (Some 10) None None) =
     [CreateBufferSource 0, CreateGain 1, SetBuffer 0 (Some 0),
      SetLoopStart 0 (7 / 2), SetLoopEnd 0 (15 / 4), SetLoop 0 True,
      ConnectToGain 0 1, ConnectToDestination 1, SetDetune 0 0, SetGainValue 1 (6 / 10),
      SetTargetAtTime 1 0 10 (5 / 100), Start 0 0 0 (Some (10 + 3 / 10))]"
  using C6_long_finite_note [of readyPlayer "\<lparr>currentTime = 0, nextNode = 0, calls = []\<rparr>"
      "''guitar''" 63 highNote "[]" 10 None None None]
    C6_long_finite_note [of readyPlayer "\<lparr>currentTime = 0, nextNode = 0, calls = []\<rparr>"
      "''guitar''" 40 lowNote "[]" 10 None None None]
    resolve_guitar_63 resolve_guitar_40
  by (simp add: readyPlayer_def noteVolumeParam_def noteDelayParam_def GAIN_TIME_CONSTANT_def
      EXTRA_NOTE_DURATION_def lowNote_def highNote_def)

text \<open>
  C9: For a note-on request that resolves to a descriptor, the detune of the source
  node created for it is, after the request, exactly the requested pitch minus the
  descriptor's sampled pitch, times 100.
\<close>

theorem C9_detune:
  assumes "webNoteAudioContext s = Some ctx"
    and "getClosestSpriteNoteData (audioSpriteInstrumentsData s) instrumentAudio n
           = Inr (d, warnings)"
  shows "detuneAfter (fst (createBufferSource ctx))
           (engineCalls (webNotePlayerOn s instrumentAudio n uuid durationArg volumeArg delayArg))
         = (n - midiNoteNumber d) * 100"
proof -
  obtain x where "clampedNoteDuration (noteDurationParam durationArg) d = Some x"
    using clampedNoteDuration_defined by blast
  from webNotePlayerOn_resolved[OF assms this] show ?thesis
    by (simp add: engineCalls_def createBufferSource_def)
qed

text \<open>Sampled pitch 60 and requested pitch 63 give 300 cents.\<close>

theorem C9_detune_witness:
  "midiNoteNumber highNote = 60
   \<and> getClosestSpriteNoteData (audioSpriteInstrumentsData readyPlayer) ''guitar'' 63
       = Inr (highNote, [])
   \<and> detuneAfter 0 (engineCalls (webNotePlayerOn readyPlayer ''guitar'' 63 None None None None))
       = 300"
  using C9_detune [of readyPlayer "\<lparr>currentTime = 0, nextNode = 0, calls = []\<rparr>"
      "''guitar''" 63 highNote "[]" None None None None] resolve_guitar_63
  by (simp add: readyPlayer_def createBufferSource_def highNote_def)

text \<open>
  C2 asks that a note-on request whose duration is passed as undefined, with an
  identifier, starts playback without a stop time and enters the voice in the registry.
  The code does otherwise: for such a request at pitch 40 with identifier \<open>a\<close> the
  registry is still empty afterwards, and the source is started for the default duration
  1 plus the extra 0.3 s, without looping, with the fade scheduled at 1 s.
\<close>

theorem C2_undefined_duration_plays_one_second:
  "webNoteAudioBuffers (webNotePlayerOn readyPlayer ''guitar'' 40 (Some ''a'') None None None)
     = emptyRegistry
   \<and> engineCalls (webNotePlayerOn readyPlayer ''guitar'' 40 (Some ''a'') None None None) =
     [CreateBufferSource 0, CreateGain 1, SetBuffer 0 (Some 0), SetLoop 0 False,
      ConnectToGain 0 1, ConnectToDestination 1, SetDetune 0 0, SetGainValue 1 (6 / 10),
      SetTargetAtTime 1 0 1 (5 / 100), Start 0 0 0 (Some (1 + 3 / 10))]"
  using resolve_guitar_40
  by (simp add: webNotePlayerOn_def readyPlayer_def createBufferSource_def createGain_def
      call_def consoleWrite_def engineCalls_def noteDurationParam_def noteVolumeParam_def
      noteDelayParam_def clampedNoteDuration_def useLoop_def isLongNote_def
      GAIN_TIME_CONSTANT_def EXTRA_NOTE_DURATION_def lowNote_def)

text \<open>
  C3 asks that a note-on request whose duration is passed as undefined, without an
  identifier, fails with the missing-identifier error and starts no playback. The code
  does otherwise: such a request at pitch 40 prints nothing on the console and starts the
  source for the default duration.
\<close>

theorem C3_undefined_duration_without_uuid_plays:
  "console (webNotePlayerOn readyPlayer ''guitar'' 40 None None None None) = []
   \<and> engineCalls (webNotePlayerOn readyPlayer ''guitar'' 40 None None None None) =
     [CreateBufferSource 0, CreateGain 1, SetBuffer 0 (Some 0), SetLoop 0 False,
      ConnectToGain 0 1, ConnectToDestination 1, SetDetune 0 0, SetGainValue 1 (6 / 10),
      SetTargetAtTime 1 0 1 (5 / 100), Start 0 0 0 (Some (1 + 3 / 10))]"
  using resolve_guitar_40
  by (simp add: webNotePlayerOn_def readyPlayer_def createBufferSource_def createGain_def
      call_def consoleWrite_def engineCalls_def noteDurationParam_def noteVolumeParam_def
      noteDelayParam_def clampedNoteDuration_def useLoop_def isLongNote_def
      GAIN_TIME_CONSTANT_def EXTRA_NOTE_DURATION_def lowNote_def)

text \<open>
  A note-off request whose registry read yields undefined writes the warning and changes
  nothing else; one that finds an entry cancels the scheduled gain changes, schedules the
  fade from the current time and the stop 0.3 s later, and deletes the entry.
\<close>

lemma webNotePlayerOff_absent:
  "webNoteAudioContext s = Some ctx \<Longrightarrow> getProperty (webNoteAudioBuffers s) uuid = Undefined
     \<Longrightarrow> webNotePlayerOff s uuid = (None, consoleWrite [WarnNonExistentNote uuid] s)"
  by (simp add: webNotePlayerOff_def)

lemma webNotePlayerOff_present:
  "webNoteAudioContext s = Some ctx \<Longrightarrow> own (webNoteAudioBuffers s) uuid = Some v
     \<Longrightarrow> webNotePlayerOff s uuid =
         (None,
          s\<lparr>webNoteAudioContext :=
               Some (ctx\<lparr>calls := calls ctx @
                  [CancelScheduledValues (gain v) 0,
                   SetTargetAtTime (gain v) 0 (currentTime ctx) GAIN_TIME_CONSTANT,
                   Stop (buffer v) (currentTime ctx + EXTRA_NOTE_DURATION)]\<rparr>),
             webNoteAudioBuffers := deleteProperty (webNoteAudioBuffers s) uuid\<rparr>)"
  by (simp add: webNotePlayerOff_def getProperty_def call_def)

lemma getProperty_after_delete:
  "proto r = None \<Longrightarrow>
     getProperty (deleteProperty r uuid) uuid
       = (if uuid \<in> set Object_prototype_properties then Inherited else Undefined)"
  by (simp add: getProperty_def deleteProperty_def)

text \<open>
  C7 asks that a note-off request for an identifier that is not in the registry reports
  a warning and returns without throwing. The code does otherwise for an identifier that
  names a member of \<^verbatim>\<open>Object.prototype\<close>: with an empty registry, the request for
  \<^verbatim>\<open>toString\<close> throws a TypeError, writes no warning and leaves the state as it was.
\<close>

theorem C7_inherited_key_throws:
  "webNotePlayerOff readyPlayer ''toString'' = (Some PropertyOfUndefined, readyPlayer)"
  by (simp add: webNotePlayerOff_def readyPlayer_def getProperty_def emptyRegistry_def
      Object_prototype_properties_def Object_prototype_methods_def)

end
